theory Spec2Isabelle
  imports Complex_Main "HOL-Library.Product_Lexorder" "HOL-Library.List_Lexorder"
    "HOL-Library.Char_ord"
begin

section \<open>Weatherman: the rain and cold alert engine\<close>

text \<open>
  A shallow embedding of \<^verbatim>\<open>rain_alert.py\<close> (the stateful alert script) and of the
  fetch function \<^verbatim>\<open>ow_onecall\<close> of \<^verbatim>\<open>weather_push.py\<close>.

  The script is a straight-line module body. It is modelled as a function of its three
  inputs: the parsed weather response \<open>data\<close>, the local \<open>hour\<close>, and the contents of the
  state file (\<open>None\<close> when the file does not exist). Its effects are the calls of
  \<^verbatim>\<open>send_push\<close> and \<^verbatim>\<open>save_state\<close>, recorded in order as a list of events; an
  uncaught exception ends the run and is returned as a value. The HTTP requests are taken
  to return: a network failure inside the fetch or \<^verbatim>\<open>send_push\<close> is not part of the
  model, and neither is a failure to write the state file.

  Numbers read from JSON are Python ints or finite floats; both are exact rationals, so a
  reading is a \<open>rat\<close>. Strings are byte strings in UTF-8.
\<close>

subsection \<open>Configuration\<close>

definition QUIET_START :: int where
  "QUIET_START = 23"

definition QUIET_END :: int where
  "QUIET_END = 6"

text \<open>
  The titles start with an emoji; they are given by their UTF-8 bytes. Python compares
  strings by code point, which is the byte order of UTF-8.
\<close>

definition COLD_THRESHOLDS :: "(int \<times> string \<times> string) list" where
  "COLD_THRESHOLDS =
     [(15, [CHR 0xF0, CHR 0x9F, CHR 0xA7, CHR 0xA5] @ '' Cool Weather Alert'',
           ''A light jacket may be useful.''),
      (10, [CHR 0xE2, CHR 0x9D, CHR 0x84, CHR 0xEF, CHR 0xB8, CHR 0x8F] @ '' Cold Weather Alert'',
           ''Dress warmly if heading out.''),
      (5,  [CHR 0xF0, CHR 0x9F, CHR 0xA7, CHR 0x8A] @ '' Very Cold Alert'',
           ''Cold conditions expected. Bundle up.''),
      (0,  [CHR 0xF0, CHR 0x9F, CHR 0xA5, CHR 0xB6] @ '' Freezing Alert'',
           ''Risk of frost or icy surfaces.'')]"

definition RAIN_TITLE :: string where
  "RAIN_TITLE = [CHR 0xF0, CHR 0x9F, CHR 0x8C, CHR 0xA7, CHR 0xEF, CHR 0xB8, CHR 0x8F] @ '' Rain Alert''"

subsection \<open>Data\<close>

datatype error = KeyError string | RuntimeError string

text \<open>
  One entry of \<open>hourly\<close>. \<open>rain\<close> says whether the key \<^verbatim>\<open>"rain"\<close> is present;
  \<open>weather\<close> is \<^verbatim>\<open>h.get("weather", [])\<close>, each entry being its \<^verbatim>\<open>"main"\<close> field
  (\<open>None\<close> when the entry has no such key); \<open>dt\<close> is the timestamp, \<open>None\<close> when absent.
\<close>

record hourly_point =
  rain :: bool
  weather :: "string option list"
  dt :: "int option"

record current_conditions =
  temp :: "rat option"
  feels_like :: "rat option"

record weather_data =
  current :: "current_conditions option"
  hourly :: "hourly_point list option"

record alert_state =
  rain_alerted :: bool
  last_feels_like :: "int option"

text \<open>What \<^verbatim>\<open>requests.get\<close> returned: the status code and the parsed body.\<close>

record response =
  status_code :: int
  json :: weather_data

text \<open>
  The body of a notification is kept as the values the f-string interpolates:
  \<open>rain_time\<close> for the rain alert (the timestamp before formatting), and the rounded
  temperatures with the advice for a cold alert.
\<close>

datatype message = RainMessage "int option" | ColdMessage int int string

datatype event = is_Push: Push string message int | is_SaveState: SaveState alert_state

subsection \<open>Helpers\<close>

definition is_quiet_hours :: "int \<Rightarrow> bool" where
  "is_quiet_hours hour \<longleftrightarrow> QUIET_START \<le> hour \<or> hour < QUIET_END"

definition load_state :: "alert_state option \<Rightarrow> alert_state" where
  "load_state stored =
     (case stored of
        Some s \<Rightarrow> s
      | None \<Rightarrow> \<lparr>rain_alerted = False, last_feels_like = None\<rparr>)"

definition crossed :: "int option \<Rightarrow> int \<Rightarrow> int \<Rightarrow> bool" where
  "crossed prev cur threshold \<longleftrightarrow>
     (case prev of None \<Rightarrow> False | Some p \<Rightarrow> p > threshold \<and> threshold \<ge> cur)"

text \<open>
  Python's \<^verbatim>\<open>round\<close> with one argument: the nearest integer, a tie going to the even
  one. On a float it is exact.
\<close>

definition py_round :: "rat \<Rightarrow> int" where
  "py_round x =
     (let f = \<lfloor>x\<rfloor>; d = x - of_int f
      in if d < 1 / 2 then f
         else if 1 / 2 < d then f + 1
         else if even f then f else f + 1)"

text \<open>
  \<^verbatim>\<open>str.lower\<close> on the ASCII letters. No character outside ASCII lowers to one of the
  letters of \<^verbatim>\<open>"rain"\<close> alone, so the comparison with \<^verbatim>\<open>"rain"\<close> is decided by the
  ASCII letters.
\<close>

definition lower_char :: "char \<Rightarrow> char" where
  "lower_char c =
     (let n = (of_char c :: nat)
      in if 65 \<le> n \<and> n \<le> 90 then char_of (n + 32) else c)"

definition lower :: "string \<Rightarrow> string" where
  "lower s = map lower_char s"

text \<open>\<^verbatim>\<open>sorted(xs, reverse=True)\<close>: descending in the order of the tuples.\<close>

definition sorted_reverse :: "(int \<times> string \<times> string) list \<Rightarrow> (int \<times> string \<times> string) list" where
  "sorted_reverse xs = rev (sort xs)"

subsection \<open>The rain alert\<close>

text \<open>
  \<^verbatim>\<open>any(w["main"].lower() == "rain" for w in ...)\<close>: stops at the first match, and raises
  \<^verbatim>\<open>KeyError\<close> at an entry without \<^verbatim>\<open>"main"\<close> reached before one.
\<close>

fun any_rain :: "string option list \<Rightarrow> error + bool" where
  "any_rain [] = Inr False"
| "any_rain (None # ws) = Inl (KeyError ''main'')"
| "any_rain (Some m # ws) = (if lower m = ''rain'' then Inr True else any_rain ws)"

text \<open>The loop over the forecast points; the result is \<open>(rain_soon, rain_time)\<close>.\<close>

fun rain_loop :: "hourly_point list \<Rightarrow> error + (bool \<times> int option)" where
  "rain_loop [] = Inr (False, None)"
| "rain_loop (h # hs) =
     (case (if rain h then Inr True else any_rain (weather h)) of
        Inl e \<Rightarrow> Inl e
      | Inr True \<Rightarrow>
          (case dt h of
             None \<Rightarrow> Inl (KeyError ''dt'')
           | Some t \<Rightarrow> Inr (True, Some t))
      | Inr False \<Rightarrow> rain_loop hs)"

definition rain_scan :: "weather_data \<Rightarrow> error + (bool \<times> int option)" where
  "rain_scan data = rain_loop (take 2 (case hourly data of None \<Rightarrow> [] | Some hs \<Rightarrow> hs))"

text \<open>The two \<^verbatim>\<open>if\<close> statements after the loop: the events sent and the new state.\<close>

definition rain_notify :: "bool \<Rightarrow> int option \<Rightarrow> alert_state \<Rightarrow> event list \<times> alert_state" where
  "rain_notify rain_soon rain_time state =
     (let (ev, state1) =
            (if rain_soon \<and> \<not> rain_alerted state
             then ([Push RAIN_TITLE (RainMessage rain_time) 1], state\<lparr>rain_alerted := True\<rparr>)
             else ([], state));
          state2 = (if \<not> rain_soon then state1\<lparr>rain_alerted := False\<rparr> else state1)
      in (ev, state2))"

definition rain_section :: "weather_data \<Rightarrow> alert_state \<Rightarrow> error + (event list \<times> alert_state)" where
  "rain_section data state =
     (case rain_scan data of
        Inl e \<Rightarrow> Inl e
      | Inr (rain_soon, rain_time) \<Rightarrow> Inr (rain_notify rain_soon rain_time state))"

subsection \<open>The cold alerts\<close>

text \<open>The selection loop: the first threshold of the list that is crossed, then \<^verbatim>\<open>break\<close>.\<close>

fun select_alert ::
  "int option \<Rightarrow> int \<Rightarrow> (int \<times> string \<times> string) list \<Rightarrow> (int \<times> string \<times> string) option" where
  "select_alert last_feels current_feels [] = None"
| "select_alert last_feels current_feels ((threshold, title, advice) # rest) =
     (if crossed last_feels current_feels threshold
      then Some (threshold, title, advice)
      else select_alert last_feels current_feels rest)"

definition alert_to_send :: "int option \<Rightarrow> int \<Rightarrow> (int \<times> string \<times> string) option" where
  "alert_to_send last_feels current_feels =
     select_alert last_feels current_feels (sorted_reverse COLD_THRESHOLDS)"

text \<open>The block under \<^verbatim>\<open>if alert_to_send:\<close>; a tuple of three is always true.\<close>

definition cold_notify ::
  "int \<Rightarrow> int \<Rightarrow> int \<Rightarrow> (int \<times> string \<times> string) option \<Rightarrow> event list" where
  "cold_notify hour current_temp current_feels alert =
     (case alert of
        None \<Rightarrow> []
      | Some (threshold, title, advice) \<Rightarrow>
          if \<not> (is_quiet_hours hour \<and> threshold > 0)
          then [Push title (ColdMessage current_temp current_feels advice)
                  (if threshold \<le> 0 then 2 else 1)]
          else [])"

definition cold_section ::
  "weather_data \<Rightarrow> int \<Rightarrow> alert_state \<Rightarrow> error + (event list \<times> alert_state)" where
  "cold_section data hour state =
     (case current data of
        None \<Rightarrow> Inl (KeyError ''current'')
      | Some c \<Rightarrow>
          (case temp c of
             None \<Rightarrow> Inl (KeyError ''temp'')
           | Some t \<Rightarrow>
               (case feels_like c of
                  None \<Rightarrow> Inl (KeyError ''feels_like'')
                | Some f \<Rightarrow>
                    (let current_temp = py_round t;
                         current_feels = py_round f;
                         last_feels = last_feels_like state;
                         ev = cold_notify hour current_temp current_feels
                                (alert_to_send last_feels current_feels);
                         state' = state\<lparr>last_feels_like := Some current_feels\<rparr>
                     in Inr (ev @ [SaveState state'], state')))))"

subsection \<open>One invocation\<close>

text \<open>
  The events of the run in order, and the exception that ended it (\<open>None\<close> when the run
  reached its last line).
\<close>

definition rain_alert_main ::
  "weather_data \<Rightarrow> int \<Rightarrow> alert_state option \<Rightarrow> event list \<times> error option" where
  "rain_alert_main data hour stored =
     (let state = load_state stored
      in case rain_section data state of
           Inl e \<Rightarrow> ([], Some e)
         | Inr (ev1, state1) \<Rightarrow>
             (case cold_section data hour state1 of
                Inl e \<Rightarrow> (ev1, Some e)
              | Inr (ev2, state2) \<Rightarrow> (ev1 @ ev2, None)))"

text \<open>The state file after a run: what the last \<^verbatim>\<open>save_state\<close> wrote, if any.\<close>

fun file_after :: "alert_state option \<Rightarrow> event list \<Rightarrow> alert_state option" where
  "file_after stored [] = stored"
| "file_after stored (SaveState s # evs) = file_after (Some s) evs"
| "file_after stored (Push t m p # evs) = file_after stored evs"

text \<open>
  Successive invocations: each one reads the file the one before left. The result is
  the events of all of them in order.
\<close>

fun invocations :: "(weather_data \<times> int) list \<Rightarrow> alert_state option \<Rightarrow> event list" where
  "invocations [] stored = []"
| "invocations ((data, hour) # rest) stored =
     (let ev = fst (rain_alert_main data hour stored)
      in ev @ invocations rest (file_after stored ev))"

definition is_rain_push :: "event \<Rightarrow> bool" where
  "is_rain_push e \<longleftrightarrow> (case e of Push t m p \<Rightarrow> t = RAIN_TITLE | SaveState s \<Rightarrow> False)"

subsection \<open>The fetch of the daily summary\<close>

text \<open>\<^verbatim>\<open>ow_onecall\<close> of \<^verbatim>\<open>weather_push.py\<close>, after the request has returned.\<close>

definition ow_onecall :: "response \<Rightarrow> error + weather_data" where
  "ow_onecall r =
     (let data = json r
      in if status_code r \<noteq> 200 then Inl (RuntimeError ''OpenWeather HTTP'')
         else if hourly data = None then Inl (RuntimeError ''OpenWeather response missing hourly'')
         else Inr data)"

section \<open>Properties\<close>

subsection \<open>The table and the selection loop\<close>

text \<open>
  The table is already in descending order of its temperatures, so sorting it in reverse
  gives the table itself: the loop meets 15 first and 0 last.
\<close>

lemma sorted_reverse_COLD_THRESHOLDS: "sorted_reverse COLD_THRESHOLDS = COLD_THRESHOLDS"
  by (simp add: sorted_reverse_def COLD_THRESHOLDS_def)

lemma select_alert_Some:
  "select_alert prev cur xs = Some (T, title, advice) \<Longrightarrow>
     crossed prev cur T \<and> (T, title, advice) \<in> set xs"
  by (induction prev cur xs rule: select_alert.induct) (auto split: if_splits)

lemma select_alert_None_prev: "select_alert None cur xs = None"
  by (induction xs) (auto simp: crossed_def)

lemma select_alert_None_iff:
  "select_alert prev cur xs = None \<longleftrightarrow> (\<forall>(T, title, advice) \<in> set xs. \<not> crossed prev cur T)"
  by (induction prev cur xs rule: select_alert.induct) auto

lemma alert_to_send_crossed:
  "alert_to_send prev cur = Some (T, title, advice) \<Longrightarrow> crossed prev cur T"
  unfolding alert_to_send_def by (blast dest: select_alert_Some)

subsection \<open>The shape of a run\<close>

lemma rain_notify_events:
  "fst (rain_notify rain_soon rain_time state) =
     (if rain_soon \<and> \<not> rain_alerted state then [Push RAIN_TITLE (RainMessage rain_time) 1] else [])"
  by (simp add: rain_notify_def)

lemma rain_notify_state:
  "snd (rain_notify rain_soon rain_time state) = state\<lparr>rain_alerted := rain_soon\<rparr>"
  by (cases "rain_alerted state") (simp_all add: rain_notify_def)

lemma cold_section_present:
  "current data = Some c \<Longrightarrow> temp c = Some t \<Longrightarrow> feels_like c = Some f \<Longrightarrow>
   cold_section data hour state =
     Inr (cold_notify hour (py_round t) (py_round f)
            (alert_to_send (last_feels_like state) (py_round f))
          @ [SaveState (state\<lparr>last_feels_like := Some (py_round f)\<rparr>)],
          state\<lparr>last_feels_like := Some (py_round f)\<rparr>)"
  by (simp add: cold_section_def Let_def)

lemma cold_section_missing:
  "current data = None \<or> (\<exists>c. current data = Some c \<and> (temp c = None \<or> feels_like c = None)) \<Longrightarrow>
   \<exists>k. cold_section data hour state = Inl (KeyError k)"
  by (auto simp: cold_section_def split: option.splits)

lemma cold_section_Inr_fields:
  "cold_section data hour state = Inr r \<Longrightarrow>
   \<exists>c t f. current data = Some c \<and> temp c = Some t \<and> feels_like c = Some f"
  by (auto simp: cold_section_def split: option.splits)

lemma cold_notify_cases:
  "cold_notify hour t f alert = [] \<or>
   (\<exists>threshold title advice. alert = Some (threshold, title, advice) \<and>
      cold_notify hour t f alert =
        [Push title (ColdMessage t f advice) (if threshold \<le> 0 then 2 else 1)])"
  by (auto simp: cold_notify_def split: option.splits)

lemma main_rain_error:
  "rain_scan data = Inl e \<Longrightarrow> rain_alert_main data hour stored = ([], Some e)"
  by (simp add: rain_alert_main_def rain_section_def)

lemma main_cold_error:
  assumes "rain_scan data = Inr (rain_soon, rain_time)"
    and "current data = None \<or> (\<exists>c. current data = Some c \<and> (temp c = None \<or> feels_like c = None))"
  shows "\<exists>k. rain_alert_main data hour stored =
     (fst (rain_notify rain_soon rain_time (load_state stored)), Some (KeyError k))"
proof -
  obtain ev1 state1 where r: "rain_notify rain_soon rain_time (load_state stored) = (ev1, state1)"
    by (cases "rain_notify rain_soon rain_time (load_state stored)")
  from cold_section_missing [OF assms(2)] obtain k where
    "cold_section data hour state1 = Inl (KeyError k)" by blast
  with assms(1) r show ?thesis
    by (simp add: rain_alert_main_def rain_section_def Let_def)
qed

lemma main_complete:
  assumes "rain_scan data = Inr (rain_soon, rain_time)"
    and "current data = Some c" and "temp c = Some t" and "feels_like c = Some f"
  shows "rain_alert_main data hour stored =
     (fst (rain_notify rain_soon rain_time (load_state stored))
      @ cold_notify hour (py_round t) (py_round f)
          (alert_to_send (last_feels_like (load_state stored)) (py_round f))
      @ [SaveState ((load_state stored)\<lparr>rain_alerted := rain_soon,
                      last_feels_like := Some (py_round f)\<rparr>)],
      None)"
proof -
  obtain ev1 state1 where r: "rain_notify rain_soon rain_time (load_state stored) = (ev1, state1)"
    by (cases "rain_notify rain_soon rain_time (load_state stored)")
  then have s1: "state1 = (load_state stored)\<lparr>rain_alerted := rain_soon\<rparr>"
    using rain_notify_state [of rain_soon rain_time "load_state stored"] by simp
  from assms(1) r s1 cold_section_present [OF assms(2-4), of hour state1] show ?thesis
    by (simp add: rain_alert_main_def rain_section_def Let_def)
qed

text \<open>Every run has one of three shapes.\<close>

lemma main_cases:
  obtains (rain_error) e where "rain_scan data = Inl e"
      and "rain_alert_main data hour stored = ([], Some e)"
  | (cold_error) rain_soon rain_time k where "rain_scan data = Inr (rain_soon, rain_time)"
      and "current data = None \<or> (\<exists>c. current data = Some c \<and> (temp c = None \<or> feels_like c = None))"
      and "rain_alert_main data hour stored =
             (fst (rain_notify rain_soon rain_time (load_state stored)), Some (KeyError k))"
  | (complete) rain_soon rain_time c t f where "rain_scan data = Inr (rain_soon, rain_time)"
      and "current data = Some c" and "temp c = Some t" and "feels_like c = Some f"
      and "rain_alert_main data hour stored =
             (fst (rain_notify rain_soon rain_time (load_state stored))
              @ cold_notify hour (py_round t) (py_round f)
                  (alert_to_send (last_feels_like (load_state stored)) (py_round f))
              @ [SaveState ((load_state stored)\<lparr>rain_alerted := rain_soon,
                              last_feels_like := Some (py_round f)\<rparr>)],
              None)"
proof (cases "rain_scan data")
  case (Inl e)
  then show ?thesis using rain_error main_rain_error by blast
next
  case (Inr r)
  obtain rs rt where r: "r = (rs, rt)" by (cases r)
  show ?thesis
  proof (cases "current data = None \<or> (\<exists>c. current data = Some c \<and> (temp c = None \<or> feels_like c = None))")
    case True
    with Inr r main_cold_error [of data rs rt hour stored] cold_error show ?thesis by blast
  next
    case False
    then obtain c t f where "current data = Some c" "temp c = Some t" "feels_like c = Some f"
      by auto
    with Inr r main_complete [of data rs rt c t f hour stored] complete show ?thesis by blast
  qed
qed

subsection \<open>Events and the state file\<close>

lemma file_after_pushes: "\<forall>e \<in> set evs. is_Push e \<Longrightarrow> file_after stored evs = stored"
  by (induction stored evs rule: file_after.induct) auto

lemma file_after_append_save: "file_after stored (evs @ [SaveState s]) = Some s"
  by (induction stored evs rule: file_after.induct) auto

lemma is_rain_push_rain [simp]: "is_rain_push (Push RAIN_TITLE m p)"
  by (simp add: is_rain_push_def)

lemma rain_notify_no_save: "e \<in> set (fst (rain_notify rain_soon rain_time state)) \<Longrightarrow> is_Push e"
  by (auto simp: rain_notify_events split: if_splits)

lemma cold_notify_no_save: "e \<in> set (cold_notify hour t f alert) \<Longrightarrow> is_Push e"
  using cold_notify_cases [of hour t f alert] by auto

lemma crossed_not_again: "cur \<le> T \<Longrightarrow> \<not> crossed (Some cur) cur' T"
  by (simp add: crossed_def)

lemma crossed_cur_le: "crossed prev cur T \<Longrightarrow> cur \<le> T"
  by (cases prev) (simp_all add: crossed_def)

subsection \<open>Rain notifications of a run\<close>

lemma rain_push_when_not_alerted:
  assumes "rain_scan data = Inr (True, rain_time)" and "\<not> rain_alerted (load_state stored)"
  shows "Push RAIN_TITLE (RainMessage rain_time) 1 \<in> set (fst (rain_alert_main data hour stored))"
proof (cases rule: main_cases [of data hour stored])
  case (rain_error e)
  with assms show ?thesis by simp
next
  case (cold_error rain_soon rt k)
  with assms show ?thesis by (simp add: rain_notify_events)
next
  case (complete rain_soon rt c t f)
  with assms show ?thesis by (simp add: rain_notify_events)
qed

lemma cold_title_not_rain: "(T, title, advice) \<in> set COLD_THRESHOLDS \<Longrightarrow> title \<noteq> RAIN_TITLE"
  by (auto simp: COLD_THRESHOLDS_def RAIN_TITLE_def)

lemma alert_to_send_in_table:
  "alert_to_send prev cur = Some (T, title, advice) \<Longrightarrow> (T, title, advice) \<in> set COLD_THRESHOLDS"
  unfolding alert_to_send_def sorted_reverse_COLD_THRESHOLDS by (blast dest: select_alert_Some)

lemma cold_notify_not_rain:
  "filter is_rain_push (cold_notify hour t f (alert_to_send prev cur)) = []"
proof (cases "alert_to_send prev cur")
  case None
  then show ?thesis by (simp add: cold_notify_def)
next
  case (Some a)
  obtain T title advice where a: "a = (T, title, advice)" by (cases a)
  with Some have "title \<noteq> RAIN_TITLE"
    using alert_to_send_in_table cold_title_not_rain by blast
  with Some a show ?thesis by (simp add: cold_notify_def is_rain_push_def)
qed

lemma rain_pushes_of_run:
  assumes "rain_scan data = Inr (rain_soon, rain_time)"
  shows "filter is_rain_push (fst (rain_alert_main data hour stored)) =
           (if rain_soon \<and> \<not> rain_alerted (load_state stored)
            then [Push RAIN_TITLE (RainMessage rain_time) 1] else [])"
proof (cases rule: main_cases [of data hour stored])
  case (rain_error e)
  with assms show ?thesis by simp
next
  case (cold_error rs rt k)
  with assms show ?thesis by (simp add: rain_notify_events)
next
  case (complete rs rt c t f)
  with assms show ?thesis
    by (simp add: rain_notify_events cold_notify_not_rain is_rain_push_def)
qed

lemma file_after_complete:
  assumes "rain_scan data = Inr (rain_soon, rain_time)"
    and "current data = Some c" and "temp c = Some t" and "feels_like c = Some f"
  shows "file_after stored (fst (rain_alert_main data hour stored)) =
           Some ((load_state stored)\<lparr>rain_alerted := rain_soon,
                    last_feels_like := Some (py_round f)\<rparr>)"
  using main_complete [OF assms, of hour stored] file_after_append_save
  by (simp flip: append_assoc)

lemma no_rain_push_while_alerted:
  assumes "\<forall>(d, h) \<in> set runs. \<exists>rt c t f. rain_scan d = Inr (True, rt) \<and>
             current d = Some c \<and> temp c = Some t \<and> feels_like c = Some f"
    and "rain_alerted (load_state stored)"
  shows "filter is_rain_push (invocations runs stored) = []"
  using assms
proof (induction runs arbitrary: stored)
  case Nil
  then show ?case by simp
next
  case (Cons r runs)
  obtain d h where r: "r = (d, h)" by (cases r)
  from Cons.prems(1) r obtain rt c t f where
    d: "rain_scan d = Inr (True, rt)" "current d = Some c" "temp c = Some t" "feels_like c = Some f"
    by auto
  have 1: "filter is_rain_push (fst (rain_alert_main d h stored)) = []"
    using rain_pushes_of_run [OF d(1), of h stored] Cons.prems(2) by simp
  have "rain_alerted (load_state (file_after stored (fst (rain_alert_main d h stored))))"
    using file_after_complete [OF d, of stored h] by (simp add: load_state_def)
  with Cons.IH [of "file_after stored (fst (rain_alert_main d h stored))"] Cons.prems(1)
  have 2: "filter is_rain_push
             (invocations runs (file_after stored (fst (rain_alert_main d h stored)))) = []"
    by simp
  from 1 2 r show ?case by (simp add: Let_def)
qed

subsection \<open>Cold notifications of a run\<close>

lemma table_title_unique:
  "(T, title, advice) \<in> set COLD_THRESHOLDS \<Longrightarrow> (T', title, advice') \<in> set COLD_THRESHOLDS \<Longrightarrow>
   T = T'"
  by (auto simp: COLD_THRESHOLDS_def)

lemma cold_push_crossed:
  assumes "Push title m p \<in> set (cold_notify hour t f (alert_to_send prev cur))"
    and "(T, title, advice) \<in> set COLD_THRESHOLDS"
  shows "crossed prev cur T"
proof -
  from assms(1) cold_notify_cases [of hour t f "alert_to_send prev cur"]
  obtain T' advice' where a: "alert_to_send prev cur = Some (T', title, advice')"
    by auto
  then have "(T', title, advice') \<in> set COLD_THRESHOLDS" by (rule alert_to_send_in_table)
  with assms(2) have "T = T'" by (rule table_title_unique)
  with a show ?thesis by (simp add: alert_to_send_crossed)
qed

lemma run_cold_push_crossed:
  assumes "Push title m p \<in> set (fst (rain_alert_main data hour stored))"
    and "(T, title, advice) \<in> set COLD_THRESHOLDS"
  shows "\<exists>c f. current data = Some c \<and> feels_like c = Some f \<and>
           crossed (last_feels_like (load_state stored)) (py_round f) T"
proof -
  from assms(2) have nr: "title \<noteq> RAIN_TITLE" by (rule cold_title_not_rain)
  have norain: "Push title m p \<notin> set (fst (rain_notify rs rt st))" for rs rt st
    using nr by (auto simp: rain_notify_events)
  show ?thesis
  proof (cases rule: main_cases [of data hour stored])
    case (rain_error e)
    with assms(1) show ?thesis by simp
  next
    case (cold_error rain_soon rain_time k)
    with assms(1) norain show ?thesis by simp
  next
    case (complete rain_soon rain_time c t f)
    with assms(1) norain
    have "Push title m p \<in> set (cold_notify hour (py_round t) (py_round f)
            (alert_to_send (last_feels_like (load_state stored)) (py_round f)))"
      by simp
    then have "crossed (last_feels_like (load_state stored)) (py_round f) T"
      using assms(2) by (rule cold_push_crossed)
    with complete(2,4) show ?thesis by blast
  qed
qed

subsection \<open>Rounding and the forecast window\<close>

lemma py_round_nearest: "\<bar>of_int (py_round x) - x\<bar> \<le> 1 / 2"
proof -
  have "of_int \<lfloor>x\<rfloor> \<le> x" and "x < of_int \<lfloor>x\<rfloor> + 1"
    by linarith+
  then show ?thesis
    by (auto simp: py_round_def Let_def abs_le_iff)
qed

lemma rain_scan_hourly: "hourly data = hourly data' \<Longrightarrow> rain_scan data = rain_scan data'"
  by (simp add: rain_scan_def)

subsection \<open>Selection of the cold alert\<close>

text \<open>
  Claim C1. The claim: at most one cold alert is selected per run, and when several
  thresholds are crossed in one step the selected one is the most severe, the lowest
  crossed threshold; a drop from 16 to -3 gives the Freezing alert of 0 degrees.

  The code selects at most one alert (the loop breaks at the first match), but it walks
  the thresholds from 15 down to 0, so a drop from 16 to -3, which crosses the threshold 0
  too, selects the Cool Weather alert of 15 degrees. Likewise a drop from 6 to -1 selects
  the Very Cold alert of 5 degrees, which quiet hours suppress: at 2 h nothing is sent
  although the threshold 0 was crossed.
\<close>

theorem big_drop_selects_cool_alert:
  "map fst (sorted_reverse COLD_THRESHOLDS) = [15, 10, 5, 0] \<and>
   crossed (Some 16) (- 3) 0 \<and>
   alert_to_send (Some 16) (- 3) =
     Some (15, [CHR 0xF0, CHR 0x9F, CHR 0xA7, CHR 0xA5] @ '' Cool Weather Alert'',
           ''A light jacket may be useful.'') \<and>
   crossed (Some 6) (- 1) 0 \<and>
   alert_to_send (Some 6) (- 1) =
     Some (5, [CHR 0xF0, CHR 0x9F, CHR 0xA7, CHR 0x8A] @ '' Very Cold Alert'',
           ''Cold conditions expected. Bundle up.'') \<and>
   cold_notify 2 (- 1) (- 1) (alert_to_send (Some 6) (- 1)) = []"
  by (simp add: alert_to_send_def sorted_reverse_COLD_THRESHOLDS)
     (simp add: COLD_THRESHOLDS_def crossed_def cold_notify_def is_quiet_hours_def
        QUIET_START_def QUIET_END_def)

subsection \<open>The crossing rule\<close>

text \<open>
  Claim C2, as stated: the cold alert of threshold \<open>T\<close> fires if and only if \<open>prev\<close> is
  not null, \<open>prev > T\<close> and \<open>cur \<le> T\<close>. The "if" half fails. From 6 to 4 the threshold 5
  is crossed, yet at 2 h, in quiet hours, the run sends nothing. From 16 to -3 the
  threshold 10 is crossed, yet the run sends one alert only, which is not the alert of 10.
\<close>

theorem crossed_alert_not_sent_counterexample:
  "crossed (Some 6) 4 5 \<and>
   rain_alert_main
     \<lparr>current = Some \<lparr>temp = Some 5, feels_like = Some 4\<rparr>, hourly = Some []\<rparr>
     2 (Some \<lparr>rain_alerted = False, last_feels_like = Some 6\<rparr>)
   = ([SaveState \<lparr>rain_alerted = False, last_feels_like = Some 4\<rparr>], None) \<and>
   crossed (Some 16) (- 3) 10 \<and>
   rain_alert_main
     \<lparr>current = Some \<lparr>temp = Some (- 1), feels_like = Some (- 3)\<rparr>, hourly = Some []\<rparr>
     14 (Some \<lparr>rain_alerted = False, last_feels_like = Some 16\<rparr>)
   = ([Push ([CHR 0xF0, CHR 0x9F, CHR 0xA7, CHR 0xA5] @ '' Cool Weather Alert'')
         (ColdMessage (- 1) (- 3) ''A light jacket may be useful.'') 1,
       SaveState \<lparr>rain_alerted = False, last_feels_like = Some (- 3)\<rparr>], None)"
  by code_simp

text \<open>
  Claim C2, amended. The threshold \<open>T\<close> is crossed if and only if \<open>prev\<close> is not null,
  \<open>prev > T\<close> and \<open>cur \<le> T\<close>. A cold alert is selected if and only if some threshold of
  the table is crossed, and the selected alert has a threshold that is crossed. A run
  sends the cold alert of \<open>T\<close> only if the saved previous reading is above \<open>T\<close> and the
  rounded current reading is at or below \<open>T\<close>: none is sent for a \<open>T\<close> with \<open>prev \<le> T\<close>
  or with \<open>cur > T\<close>. A first invocation, with no state file, sends no cold alert. Once a
  reading at or below \<open>T\<close> has become the previous reading, \<open>T\<close> is not crossed again
  whatever the next reading is.
\<close>

theorem crossed_iff_strict_downward:
  "(crossed prev cur T \<longleftrightarrow> (\<exists>p. prev = Some p \<and> p > T \<and> cur \<le> T)) \<and>
   \<not> crossed None cur T \<and>
   alert_to_send None cur = None \<and>
   (alert_to_send prev cur \<noteq> None \<longleftrightarrow>
      (\<exists>(T', title', advice') \<in> set COLD_THRESHOLDS. crossed prev cur T')) \<and>
   (alert_to_send prev cur = Some (T, title, advice) \<longrightarrow>
      (\<exists>p. prev = Some p \<and> p > T \<and> cur \<le> T)) \<and>
   (Push title m pr \<in> set (fst (rain_alert_main data hour stored)) \<and>
    (T, title, advice) \<in> set COLD_THRESHOLDS \<longrightarrow>
      (\<exists>c f p. current data = Some c \<and> feels_like c = Some f \<and>
         last_feels_like (load_state stored) = Some p \<and> p > T \<and> py_round f \<le> T)) \<and>
   (stored = None \<longrightarrow>
      (\<forall>e \<in> set (fst (rain_alert_main data hour stored)). is_Push e \<longrightarrow> is_rain_push e)) \<and>
   (cur \<le> T \<longrightarrow> \<not> crossed (Some cur) cur' T)"
proof -
  have a: "crossed prev' cur'' T' \<longleftrightarrow> (\<exists>p. prev' = Some p \<and> p > T' \<and> cur'' \<le> T')"
    for prev' cur'' T'
    by (cases prev') (simp_all add: crossed_def)
  have b: "alert_to_send None cur'' = None" for cur''
    by (simp add: alert_to_send_def select_alert_None_prev)
  have c: "alert_to_send prev cur = Some (T, title, advice) \<longrightarrow>
      (\<exists>p. prev = Some p \<and> p > T \<and> cur \<le> T)"
    using alert_to_send_crossed a by blast
  have d: "alert_to_send prev cur \<noteq> None \<longleftrightarrow>
      (\<exists>(T', title', advice') \<in> set COLD_THRESHOLDS. crossed prev cur T')"
    unfolding alert_to_send_def sorted_reverse_COLD_THRESHOLDS select_alert_None_iff by auto
  have e: "\<not> crossed None cur T" "cur \<le> T \<longrightarrow> \<not> crossed (Some cur) cur' T"
    by (simp_all add: crossed_def)
  have f: "\<exists>c f p. current data = Some c \<and> feels_like c = Some f \<and>
         last_feels_like (load_state stored) = Some p \<and> p > T \<and> py_round f \<le> T"
    if "Push title m pr \<in> set (fst (rain_alert_main data hour stored))"
      "(T, title, advice) \<in> set COLD_THRESHOLDS"
    using run_cold_push_crossed [OF that] a by blast
  have g: "\<forall>e \<in> set (fst (rain_alert_main data hour stored)). is_Push e \<longrightarrow> is_rain_push e"
    if "stored = None"
  proof (cases rule: main_cases [of data hour stored])
    case (rain_error e)
    then show ?thesis by simp
  next
    case (cold_error rain_soon rain_time k)
    then show ?thesis by (auto simp: rain_notify_events split: if_splits)
  next
    case (complete rain_soon rain_time c t f')
    have "alert_to_send (last_feels_like (load_state stored)) (py_round f') = None"
      using that b by (simp add: load_state_def)
    with complete(5) show ?thesis
      by (auto simp: rain_notify_events cold_notify_def split: if_splits)
  qed
  from a [of prev cur T] b [of cur] c d e f g show ?thesis by blast
qed

theorem crossed_iff_strict_downward_witness:
  "crossed (Some 6) 4 5 \<and> \<not> crossed (Some 4) 4 5 \<and> \<not> crossed (Some 6) 6 5 \<and>
   alert_to_send (Some 6) 4 =
     Some (5, [CHR 0xF0, CHR 0x9F, CHR 0xA7, CHR 0x8A] @ '' Very Cold Alert'',
           ''Cold conditions expected. Bundle up.'') \<and>
   (\<exists>(T', title', advice') \<in> set COLD_THRESHOLDS. crossed (Some 6) 4 T') \<and>
   Push ([CHR 0xF0, CHR 0x9F, CHR 0xA7, CHR 0x8A] @ '' Very Cold Alert'')
        (ColdMessage 5 4 ''Cold conditions expected. Bundle up.'') 1
     \<in> set (fst (rain_alert_main
                 \<lparr>current = Some \<lparr>temp = Some 5, feels_like = Some 4\<rparr>, hourly = Some []\<rparr>
                 14 (Some \<lparr>rain_alerted = False, last_feels_like = Some 6\<rparr>))) \<and>
   (\<exists>p. last_feels_like (load_state (Some \<lparr>rain_alerted = False, last_feels_like = Some 6\<rparr>))
          = Some p \<and> p > 5) \<and>
   fst (rain_alert_main
          \<lparr>current = Some \<lparr>temp = Some 5, feels_like = Some 4\<rparr>,
           hourly = Some [\<lparr>rain = True, weather = [], dt = Some 1700000000\<rparr>]\<rparr>
          14 None)
     = [Push RAIN_TITLE (RainMessage (Some 1700000000)) 1,
        SaveState \<lparr>rain_alerted = True, last_feels_like = Some 4\<rparr>] \<and>
   is_rain_push (Push RAIN_TITLE (RainMessage (Some 1700000000)) 1) \<and>
   (4::int) \<le> 5 \<and> \<not> crossed (Some 4) 3 5"
proof -
  let ?title = "[CHR 0xF0, CHR 0x9F, CHR 0xA7, CHR 0x8A] @ '' Very Cold Alert''"
  let ?advice = "''Cold conditions expected. Bundle up.''"
  let ?d = "\<lparr>current = Some \<lparr>temp = Some 5, feels_like = Some 4\<rparr>, hourly = Some []\<rparr>"
  let ?st = "Some \<lparr>rain_alerted = False, last_feels_like = Some 6\<rparr>"
  let ?wet = "\<lparr>current = Some \<lparr>temp = Some 5, feels_like = Some 4\<rparr>,
                  hourly = Some [\<lparr>rain = True, weather = [], dt = Some 1700000000\<rparr>]\<rparr>"
  have sel: "alert_to_send (Some 6) 4 = Some (5, ?title, ?advice)"
    by code_simp
  have push: "Push ?title (ColdMessage 5 4 ?advice) 1 \<in> set (fst (rain_alert_main ?d 14 ?st))"
    by code_simp
  have tab: "(5, ?title, ?advice) \<in> set COLD_THRESHOLDS"
    by (simp add: COLD_THRESHOLDS_def)
  note inst = crossed_iff_strict_downward [where prev = "Some 6" and cur = 4 and T = 5
      and title = ?title and advice = ?advice and m = "ColdMessage 5 4 ?advice" and pr = 1
      and data = ?d and hour = 14 and stored = ?st and cur' = 3]
  have 1: "crossed (Some 6) 4 5"
    using inst by simp
  have 2: "\<not> crossed (Some 4) 4 5" "\<not> crossed (Some 6) 6 5"
    using crossed_iff_strict_downward [where prev = "Some 4" and cur = 4 and T = 5]
      crossed_iff_strict_downward [where prev = "Some 6" and cur = 6 and T = 5]
    by simp_all
  have 3: "\<exists>(T', title', advice') \<in> set COLD_THRESHOLDS. crossed (Some 6) 4 T'"
    using inst sel by simp
  have 4: "\<exists>p. last_feels_like (load_state ?st) = Some p \<and> p > 5"
    using inst push tab by blast
  have wet: "fst (rain_alert_main ?wet 14 None)
     = [Push RAIN_TITLE (RainMessage (Some 1700000000)) 1,
        SaveState \<lparr>rain_alerted = True, last_feels_like = Some 4\<rparr>]"
    by code_simp
  have "\<forall>e \<in> set (fst (rain_alert_main ?wet 14 None)). is_Push e \<longrightarrow> is_rain_push e"
    using crossed_iff_strict_downward [where data = ?wet and hour = 14 and stored = None]
    by blast
  then have 5: "is_rain_push (Push RAIN_TITLE (RainMessage (Some 1700000000)) 1)"
    unfolding wet by simp
  have 6: "\<not> crossed (Some 4) 3 5"
    using inst by simp
  from 1 2 3 4 5 6 sel push wet show ?thesis by simp
qed

subsection \<open>Quiet hours\<close>



subsection \<open>Priority\<close>

text \<open>
  Claim C4, as stated: a cold alert that is sent has priority 1 (high) when its threshold
  is at or below 0, and priority 0 (normal) when it is above 0. It fails: at 14 h the
  Very Cold alert (threshold 5) is sent with priority 1 and the Freezing alert
  (threshold 0) with priority 2.
\<close>

theorem cold_priority_counterexample:
  "cold_notify 14 5 4 (alert_to_send (Some 6) 4) =
     [Push ([CHR 0xF0, CHR 0x9F, CHR 0xA7, CHR 0x8A] @ '' Very Cold Alert'')
        (ColdMessage 5 4 ''Cold conditions expected. Bundle up.'') 1] \<and>
   cold_notify 14 0 (- 1) (alert_to_send (Some 1) (- 1)) =
     [Push ([CHR 0xF0, CHR 0x9F, CHR 0xA5, CHR 0xB6] @ '' Freezing Alert'')
        (ColdMessage 0 (- 1) ''Risk of frost or icy surfaces.'') 2]"
  by (simp add: alert_to_send_def sorted_reverse_COLD_THRESHOLDS)
     (simp add: COLD_THRESHOLDS_def crossed_def cold_notify_def is_quiet_hours_def
        QUIET_START_def QUIET_END_def)

text \<open>
  Claim C4, amended: a cold alert that is sent has priority 2 (emergency) when its
  threshold is at or below 0, and priority 1 (high) when it is above 0; no notification
  of a run, rain alert included, has priority 0.
\<close>

theorem cold_priority_emergency_or_high:
  "(Push title' m p \<in> set (cold_notify hour t f (Some (threshold, title, advice))) \<longrightarrow>
      p = (if threshold \<le> 0 then 2 else 1)) \<and>
   (Push title' m p \<in> set (fst (rain_alert_main data hour stored)) \<longrightarrow> p = 1 \<or> p = 2)"
proof -
  have a: "Push title' m p \<in> set (cold_notify hour t f (Some (threshold, title, advice))) \<longrightarrow>
      p = (if threshold \<le> 0 then 2 else 1)"
    by (auto simp: cold_notify_def split: if_splits)
  have b: "p = 1 \<or> p = 2" if "Push title' m p \<in> set (cold_notify h' t' f' al)" for h' t' f' al
    using that cold_notify_cases [of h' t' f' al] by (auto split: if_splits)
  have c: "p = 1" if "Push title' m p \<in> set (fst (rain_notify rs rt st))" for rs rt st
    using that by (auto simp: rain_notify_events split: if_splits)
  have d: "Push title' m p \<in> set (fst (rain_alert_main data hour stored)) \<longrightarrow> p = 1 \<or> p = 2"
  proof (cases rule: main_cases [of data hour stored])
    case (rain_error e)
    then show ?thesis by simp
  next
    case (cold_error rain_soon rain_time k)
    then show ?thesis using c by auto
  next
    case (complete rain_soon rain_time c' t' f')
    then show ?thesis using b c by auto
  qed
  from a d show ?thesis by blast
qed

theorem cold_priority_emergency_or_high_witness:
  "Push ''T'' (ColdMessage 5 4 ''A'') 1 \<in> set (cold_notify 14 5 4 (Some (5, ''T'', ''A''))) \<and>
   (1::int) = (if (5::int) \<le> 0 then 2 else 1) \<and>
   Push ([CHR 0xF0, CHR 0x9F, CHR 0xA5, CHR 0xB6] @ '' Freezing Alert'')
        (ColdMessage 5 (- 1) ''Risk of frost or icy surfaces.'') 2
     \<in> set (fst (rain_alert_main
                 \<lparr>current = Some \<lparr>temp = Some 5, feels_like = Some (- 1)\<rparr>, hourly = Some []\<rparr>
                 14 (Some \<lparr>rain_alerted = False, last_feels_like = Some 1\<rparr>)))"
  using cold_priority_emergency_or_high [of "''T''" "ColdMessage 5 4 ''A''" 1 14 5 4 5 "''T''" "''A''"]
    cold_priority_emergency_or_high [of "[CHR 0xF0, CHR 0x9F, CHR 0xA5, CHR 0xB6] @ '' Freezing Alert''"
        "ColdMessage 5 (- 1) ''Risk of frost or icy surfaces.''" 2 14 5 4 5 "''T''" "''A''"
        "\<lparr>current = Some \<lparr>temp = Some 5, feels_like = Some (- 1)\<rparr>, hourly = Some []\<rparr>"
        "Some \<lparr>rain_alerted = False, last_feels_like = Some 1\<rparr>"]
  by code_simp

subsection \<open>Missing fields of the response\<close>

text \<open>
  Claim C5, as stated: when the current conditions lack the temperature or the
  feels-like value, the run aborts before any alert logic, so that no rain or cold
  notification is sent. It fails: the rain alert runs before the current conditions are
  read. With rain in the first forecast point and no feels-like value, the rain
  notification is sent and then the run ends with \<^verbatim>\<open>KeyError\<close>.
\<close>

theorem missing_feels_like_counterexample:
  "rain_alert_main
     \<lparr>current = Some \<lparr>temp = Some 5, feels_like = None\<rparr>,
      hourly = Some [\<lparr>rain = True, weather = [], dt = Some 1700000000\<rparr>]\<rparr>
     12 (Some \<lparr>rain_alerted = False, last_feels_like = Some 6\<rparr>)
   = ([Push RAIN_TITLE (RainMessage (Some 1700000000)) 1], Some (KeyError ''feels_like''))"
  by code_simp

text \<open>
  Claim C5, amended: when the current conditions are absent or lack the temperature or
  the feels-like value, the run ends with an exception, and no default value is used in
  its place. By then the rain alert has run: the run has sent nothing or the one rain
  notification, never a cold notification. The state is not saved: the state file is as
  it was before the run.
\<close>

theorem missing_current_field_aborts:
  assumes "current data = None \<or>
           (\<exists>c. current data = Some c \<and> (temp c = None \<or> feels_like c = None))"
  shows "(\<exists>e. snd (rain_alert_main data hour stored) = Some e) \<and>
         (fst (rain_alert_main data hour stored) = [] \<or>
          (\<exists>rain_time. fst (rain_alert_main data hour stored) =
                          [Push RAIN_TITLE (RainMessage rain_time) 1])) \<and>
         file_after stored (fst (rain_alert_main data hour stored)) = stored"
proof (cases rule: main_cases [of data hour stored])
  case (rain_error e)
  then show ?thesis by simp
next
  case (cold_error rain_soon rain_time k)
  then show ?thesis by (simp add: rain_notify_events)
next
  case (complete rain_soon rain_time c t f)
  with assms show ?thesis by auto
qed

theorem missing_current_field_aborts_witness:
  "snd (rain_alert_main
     \<lparr>current = Some \<lparr>temp = Some 5, feels_like = None\<rparr>,
      hourly = Some [\<lparr>rain = False, weather = [Some ''Rain''], dt = Some 1700000000\<rparr>]\<rparr>
     12 None) = Some (KeyError ''feels_like'') \<and>
   file_after None (fst (rain_alert_main
     \<lparr>current = Some \<lparr>temp = Some 5, feels_like = None\<rparr>,
      hourly = Some [\<lparr>rain = False, weather = [Some ''Rain''], dt = Some 1700000000\<rparr>]\<rparr>
     12 None)) = None"
proof -
  let ?d = "\<lparr>current = Some \<lparr>temp = Some 5, feels_like = None\<rparr>,
      hourly = Some [\<lparr>rain = False, weather = [Some ''Rain''], dt = Some 1700000000\<rparr>]\<rparr>"
  have h: "current ?d = None \<or> (\<exists>c. current ?d = Some c \<and> (temp c = None \<or> feels_like c = None))"
    by simp
  have ev: "rain_alert_main ?d 12 None =
      ([Push RAIN_TITLE (RainMessage (Some 1700000000)) 1], Some (KeyError ''feels_like''))"
    by code_simp
  show ?thesis using missing_current_field_aborts [OF h, of 12 None] by (simp add: ev)
qed

text \<open>
  Claim C8, as stated: a response without the hourly field is a hard error, the run
  aborting rather than going on with an empty forecast window. It fails for the alert
  script, which reads the field with the default \<^verbatim>\<open>[]\<close>: a response with current
  conditions and no hourly field runs to the end, and clears \<open>rain_alerted\<close>.
\<close>

theorem missing_hourly_counterexample:
  "rain_alert_main \<lparr>current = Some \<lparr>temp = Some 20, feels_like = Some 19\<rparr>, hourly = None\<rparr>
     12 (Some \<lparr>rain_alerted = True, last_feels_like = Some 21\<rparr>)
   = ([SaveState \<lparr>rain_alerted = False, last_feels_like = Some 19\<rparr>], None)"
  by code_simp

text \<open>
  Claim C8, amended: in the fetch of the daily summary (\<^verbatim>\<open>ow_onecall\<close>) a response
  with a status other than 200 is an error, a response with status 200 and no hourly field
  is an error, and any other response is returned. In the alert script a response without
  the hourly field is read as an empty forecast window: no rain is detected, the rain
  section sends nothing and sets \<open>rain_alerted\<close> to false, and the run is the run on the
  same response with an empty hourly list. When the current conditions have both values
  the run goes on to the cold alerts, reaches its end and saves \<open>rain_alerted\<close> as false.
\<close>

theorem missing_hourly_fetch_error_alert_empty_window:
  "(status_code r \<noteq> 200 \<longrightarrow> ow_onecall r = Inl (RuntimeError ''OpenWeather HTTP'')) \<and>
   (status_code r = 200 \<and> hourly (json r) = None \<longrightarrow>
      ow_onecall r = Inl (RuntimeError ''OpenWeather response missing hourly'')) \<and>
   (status_code r = 200 \<and> hourly (json r) \<noteq> None \<longrightarrow> ow_onecall r = Inr (json r)) \<and>
   (hourly (json r) = None \<longrightarrow> (\<exists>m. ow_onecall r = Inl (RuntimeError m))) \<and>
   (hourly data = None \<longrightarrow>
      rain_scan data = Inr (False, None) \<and>
      rain_section data state = Inr ([], state\<lparr>rain_alerted := False\<rparr>) \<and>
      rain_alert_main data hour stored = rain_alert_main (data\<lparr>hourly := Some []\<rparr>) hour stored \<and>
      filter is_rain_push (fst (rain_alert_main data hour stored)) = [] \<and>
      (\<forall>c t f. current data = Some c \<and> temp c = Some t \<and> feels_like c = Some f \<longrightarrow>
         rain_alert_main data hour stored =
           (cold_notify hour (py_round t) (py_round f)
              (alert_to_send (last_feels_like (load_state stored)) (py_round f))
            @ [SaveState ((load_state stored)\<lparr>rain_alerted := False,
                            last_feels_like := Some (py_round f)\<rparr>)],
            None) \<and>
         file_after stored (fst (rain_alert_main data hour stored)) =
           Some ((load_state stored)\<lparr>rain_alerted := False,
                   last_feels_like := Some (py_round f)\<rparr>)))"
proof -
  have a: "status_code r \<noteq> 200 \<longrightarrow> ow_onecall r = Inl (RuntimeError ''OpenWeather HTTP'')"
    "status_code r = 200 \<and> hourly (json r) = None \<longrightarrow>
      ow_onecall r = Inl (RuntimeError ''OpenWeather response missing hourly'')"
    "status_code r = 200 \<and> hourly (json r) \<noteq> None \<longrightarrow> ow_onecall r = Inr (json r)"
    "hourly (json r) = None \<longrightarrow> (\<exists>m. ow_onecall r = Inl (RuntimeError m))"
    by (simp_all add: ow_onecall_def Let_def)
  have b: "rain_scan data = Inr (False, None)" if "hourly data = None"
    using that by (simp add: rain_scan_def)
  have b': "rain_section data state = Inr ([], state\<lparr>rain_alerted := False\<rparr>)"
    if "hourly data = None"
    using b [OF that]
    by (cases "rain_alerted state") (simp_all add: rain_section_def rain_notify_def)
  have c: "rain_alert_main data hour stored = rain_alert_main (data\<lparr>hourly := Some []\<rparr>) hour stored"
    if "hourly data = None"
    using that
    by (simp add: rain_alert_main_def rain_section_def rain_scan_def cold_section_def)
  have c': "filter is_rain_push (fst (rain_alert_main data hour stored)) = []"
    if "hourly data = None"
    using rain_pushes_of_run [OF b [OF that], of hour stored] by simp
  have d: "rain_alert_main data hour stored =
           (cold_notify hour (py_round t) (py_round f)
              (alert_to_send (last_feels_like (load_state stored)) (py_round f))
            @ [SaveState ((load_state stored)\<lparr>rain_alerted := False,
                            last_feels_like := Some (py_round f)\<rparr>)],
            None) \<and>
         file_after stored (fst (rain_alert_main data hour stored)) =
           Some ((load_state stored)\<lparr>rain_alerted := False,
                   last_feels_like := Some (py_round f)\<rparr>)"
    if "hourly data = None" "current data = Some c" "temp c = Some t" "feels_like c = Some f" for c t f
    using main_complete [OF b [OF that(1)] that(2-4), of hour stored]
      file_after_complete [OF b [OF that(1)] that(2-4), of stored hour]
    by (simp add: rain_notify_events)
  from a b b' c c' d show ?thesis by blast
qed

theorem missing_hourly_fetch_error_alert_empty_window_witness:
  "ow_onecall \<lparr>status_code = 200,
      json = \<lparr>current = Some \<lparr>temp = Some 20, feels_like = Some 19\<rparr>, hourly = None\<rparr>\<rparr>
     = Inl (RuntimeError ''OpenWeather response missing hourly'') \<and>
   ow_onecall \<lparr>status_code = 401,
      json = \<lparr>current = None, hourly = None\<rparr>\<rparr>
     = Inl (RuntimeError ''OpenWeather HTTP'') \<and>
   ow_onecall \<lparr>status_code = 200,
      json = \<lparr>current = Some \<lparr>temp = Some 20, feels_like = Some 19\<rparr>, hourly = Some []\<rparr>\<rparr>
     = Inr \<lparr>current = Some \<lparr>temp = Some 20, feels_like = Some 19\<rparr>, hourly = Some []\<rparr> \<and>
   rain_scan \<lparr>current = Some \<lparr>temp = Some 20, feels_like = Some 19\<rparr>, hourly = None\<rparr>
     = Inr (False, None) \<and>
   rain_section \<lparr>current = Some \<lparr>temp = Some 20, feels_like = Some 19\<rparr>, hourly = None\<rparr>
       \<lparr>rain_alerted = True, last_feels_like = Some 21\<rparr>
     = Inr ([], \<lparr>rain_alerted = False, last_feels_like = Some 21\<rparr>) \<and>
   file_after (Some \<lparr>rain_alerted = True, last_feels_like = Some 21\<rparr>)
     (fst (rain_alert_main
        \<lparr>current = Some \<lparr>temp = Some 20, feels_like = Some 19\<rparr>, hourly = None\<rparr>
        12 (Some \<lparr>rain_alerted = True, last_feels_like = Some 21\<rparr>)))
     = Some \<lparr>rain_alerted = False, last_feels_like = Some 19\<rparr>"
proof -
  let ?c = "\<lparr>temp = Some 20, feels_like = Some 19\<rparr>"
  let ?d = "\<lparr>current = Some ?c, hourly = None\<rparr>"
  let ?st = "\<lparr>rain_alerted = True, last_feels_like = Some 21\<rparr>"
  have r19: "py_round 19 = 19"
    by code_simp
  have 1: "ow_onecall \<lparr>status_code = 200, json = ?d\<rparr>
     = Inl (RuntimeError ''OpenWeather response missing hourly'')"
    using missing_hourly_fetch_error_alert_empty_window [where r = "\<lparr>status_code = 200, json = ?d\<rparr>"]
    by simp
  have 2: "ow_onecall \<lparr>status_code = 401, json = \<lparr>current = None, hourly = None\<rparr>\<rparr>
     = Inl (RuntimeError ''OpenWeather HTTP'')"
    using missing_hourly_fetch_error_alert_empty_window
      [where r = "\<lparr>status_code = 401, json = \<lparr>current = None, hourly = None\<rparr>\<rparr>"]
    by simp
  have 3: "ow_onecall \<lparr>status_code = 200, json = \<lparr>current = Some ?c, hourly = Some []\<rparr>\<rparr>
     = Inr \<lparr>current = Some ?c, hourly = Some []\<rparr>"
    using missing_hourly_fetch_error_alert_empty_window
      [where r = "\<lparr>status_code = 200, json = \<lparr>current = Some ?c, hourly = Some []\<rparr>\<rparr>"]
    by simp
  note inst = missing_hourly_fetch_error_alert_empty_window
      [where r = "\<lparr>status_code = 200, json = ?d\<rparr>" and data = ?d and state = ?st
         and hour = 12 and stored = "Some ?st"]
  have h: "hourly ?d = None"
    by simp
  have cur: "current ?d = Some ?c" "temp ?c = Some 20" "feels_like ?c = Some 19"
    by simp_all
  have 4: "rain_scan ?d = Inr (False, None)"
    using inst h by blast
  have "rain_section ?d ?st = Inr ([], ?st\<lparr>rain_alerted := False\<rparr>)"
    using inst h by blast
  then have 5: "rain_section ?d ?st = Inr ([], \<lparr>rain_alerted = False, last_feels_like = Some 21\<rparr>)"
    by simp
  have "file_after (Some ?st) (fst (rain_alert_main ?d 12 (Some ?st))) =
      Some ((load_state (Some ?st))\<lparr>rain_alerted := False, last_feels_like := Some (py_round 19)\<rparr>)"
    using inst h cur by blast
  then have 6: "file_after (Some ?st) (fst (rain_alert_main ?d 12 (Some ?st))) =
      Some \<lparr>rain_alerted = False, last_feels_like = Some 19\<rparr>"
    by (simp add: r19 load_state_def)
  from 1 2 3 4 5 6 show ?thesis by blast
qed

subsection \<open>The saved state\<close>

text \<open>
  Claim C6. Every run that reaches its end saves the state exactly once, as its last
  effect, and the saved \<open>last_feels_like\<close> is the current feels-like reading as the engine
  uses it, that is rounded. This holds at every hour and for every previous state: also
  when no threshold was crossed and when the selected alert was suppressed. A threshold
  crossed in this run cannot be crossed in the next one, whatever the next reading is, so
  a suppressed crossing is consumed.
\<close>

theorem last_feels_like_always_updated:
  assumes "snd (rain_alert_main data hour stored) = None"
  shows "\<exists>c f s. current data = Some c \<and> feels_like c = Some f \<and>
           file_after stored (fst (rain_alert_main data hour stored)) = Some s \<and>
           last_feels_like s = Some (py_round f) \<and>
           length (filter is_SaveState (fst (rain_alert_main data hour stored))) = 1 \<and>
           last (fst (rain_alert_main data hour stored)) = SaveState s \<and>
           (\<forall>T cur'. crossed (last_feels_like (load_state stored)) (py_round f) T \<longrightarrow>
                     \<not> crossed (last_feels_like s) cur' T)"
proof (cases rule: main_cases [of data hour stored])
  case (rain_error e)
  with assms show ?thesis by simp
next
  case (cold_error rain_soon rain_time k)
  with assms show ?thesis by simp
next
  case (complete rain_soon rain_time c t f)
  let ?s = "(load_state stored)\<lparr>rain_alerted := rain_soon, last_feels_like := Some (py_round f)\<rparr>"
  let ?pre = "fst (rain_notify rain_soon rain_time (load_state stored))
              @ cold_notify hour (py_round t) (py_round f)
                  (alert_to_send (last_feels_like (load_state stored)) (py_round f))"
  have ev: "fst (rain_alert_main data hour stored) = ?pre @ [SaveState ?s]"
    using complete(5) by simp
  have pre: "\<forall>e \<in> set ?pre. is_Push e"
    using rain_notify_no_save cold_notify_no_save by auto
  then have nosave: "filter is_SaveState ?pre = []"
    by (auto simp: filter_empty_conv event.disc_eq_case split: event.splits)
  have 1: "file_after stored (fst (rain_alert_main data hour stored)) = Some ?s"
    unfolding ev by (rule file_after_append_save)
  have 2: "length (filter is_SaveState (fst (rain_alert_main data hour stored))) = 1"
    unfolding ev using nosave by simp
  have 3: "last (fst (rain_alert_main data hour stored)) = SaveState ?s"
    unfolding ev by simp
  have 4: "\<forall>T cur'. crossed (last_feels_like (load_state stored)) (py_round f) T \<longrightarrow>
                     \<not> crossed (last_feels_like ?s) cur' T"
    using crossed_cur_le crossed_not_again by auto
  from complete(2,4) 1 2 3 4 show ?thesis by (intro exI [of _ c] exI [of _ f] exI [of _ ?s]) simp
qed

theorem last_feels_like_always_updated_witness:
  "snd (rain_alert_main \<lparr>current = Some \<lparr>temp = Some 5, feels_like = Some 4\<rparr>, hourly = Some []\<rparr>
          2 (Some \<lparr>rain_alerted = False, last_feels_like = Some 6\<rparr>)) = None \<and>
   fst (rain_alert_main \<lparr>current = Some \<lparr>temp = Some 5, feels_like = Some 4\<rparr>, hourly = Some []\<rparr>
          2 (Some \<lparr>rain_alerted = False, last_feels_like = Some 6\<rparr>))
     = [SaveState \<lparr>rain_alerted = False, last_feels_like = Some 4\<rparr>] \<and>
   alert_to_send (Some 6) 4 \<noteq> None \<and>
   (\<exists>s. file_after (Some \<lparr>rain_alerted = False, last_feels_like = Some 6\<rparr>)
          (fst (rain_alert_main
                  \<lparr>current = Some \<lparr>temp = Some 5, feels_like = Some 4\<rparr>, hourly = Some []\<rparr>
                  2 (Some \<lparr>rain_alerted = False, last_feels_like = Some 6\<rparr>))) = Some s \<and>
        last_feels_like s = Some 4)"
proof -
  let ?d = "\<lparr>current = Some \<lparr>temp = Some 5, feels_like = Some 4\<rparr>, hourly = Some []\<rparr>"
  let ?st = "Some \<lparr>rain_alerted = False, last_feels_like = Some 6\<rparr>"
  have ev: "rain_alert_main ?d 2 ?st =
      ([SaveState \<lparr>rain_alerted = False, last_feels_like = Some 4\<rparr>], None)"
    by code_simp
  have h: "snd (rain_alert_main ?d 2 ?st) = None"
    by (simp add: ev)
  have al: "alert_to_send (Some 6) 4 \<noteq> None"
    by code_simp
  show ?thesis
    using last_feels_like_always_updated [OF h] al by (auto simp: ev)
qed

text \<open>
  Claim C10. The state file is written only by a run that reaches its end, once and as
  the last effect; a run that ends with an exception writes nothing, so the file is as it
  was loaded. In particular, when rain is detected, \<open>rain_alerted\<close> was false and the
  current conditions lack a value, the run sends the rain notification and aborts, the
  flag set in memory is lost, and the next run that detects rain sends the rain
  notification again.
\<close>

theorem state_written_only_by_completed_run:
  "(snd (rain_alert_main data hour stored) \<noteq> None \<longrightarrow>
      (\<forall>e \<in> set (fst (rain_alert_main data hour stored)). \<not> is_SaveState e) \<and>
      file_after stored (fst (rain_alert_main data hour stored)) = stored) \<and>
   (snd (rain_alert_main data hour stored) = None \<longrightarrow>
      (\<exists>pre s. fst (rain_alert_main data hour stored) = pre @ [SaveState s] \<and>
               (\<forall>e \<in> set pre. \<not> is_SaveState e))) \<and>
   (rain_scan data = Inr (True, rain_time) \<and> \<not> rain_alerted (load_state stored) \<and>
    (current data = None \<or>
     (\<exists>c. current data = Some c \<and> (temp c = None \<or> feels_like c = None))) \<longrightarrow>
      fst (rain_alert_main data hour stored) = [Push RAIN_TITLE (RainMessage rain_time) 1] \<and>
      (\<forall>data' hour' rain_time'. rain_scan data' = Inr (True, rain_time') \<longrightarrow>
         Push RAIN_TITLE (RainMessage rain_time') 1
           \<in> set (fst (rain_alert_main data' hour'
                          (file_after stored (fst (rain_alert_main data hour stored)))))))"
proof -
  have push_not_save: "\<not> is_SaveState e" if "is_Push e" for e
    using that by (cases e) simp_all
  have a: "(\<forall>e \<in> set (fst (rain_alert_main data hour stored)). \<not> is_SaveState e) \<and>
      file_after stored (fst (rain_alert_main data hour stored)) = stored"
    if "snd (rain_alert_main data hour stored) \<noteq> None"
  proof (cases rule: main_cases [of data hour stored])
    case (rain_error e)
    then show ?thesis by simp
  next
    case (cold_error rain_soon rt k)
    then show ?thesis
      using rain_notify_no_save push_not_save by (auto intro: file_after_pushes)
  next
    case (complete rain_soon rt c t f)
    with that show ?thesis by simp
  qed
  have b: "\<exists>pre s. fst (rain_alert_main data hour stored) = pre @ [SaveState s] \<and>
               (\<forall>e \<in> set pre. \<not> is_SaveState e)"
    if "snd (rain_alert_main data hour stored) = None"
  proof (cases rule: main_cases [of data hour stored])
    case (rain_error e)
    with that show ?thesis by simp
  next
    case (cold_error rain_soon rt k)
    with that show ?thesis by simp
  next
    case (complete rain_soon rt c t f)
    let ?pre = "fst (rain_notify rain_soon rt (load_state stored))
              @ cold_notify hour (py_round t) (py_round f)
                  (alert_to_send (last_feels_like (load_state stored)) (py_round f))"
    have "\<forall>e \<in> set ?pre. \<not> is_SaveState e"
      using rain_notify_no_save cold_notify_no_save push_not_save by auto
    with complete(5) show ?thesis by (intro exI [of _ ?pre]) simp
  qed
  have c: "fst (rain_alert_main data hour stored) = [Push RAIN_TITLE (RainMessage rain_time) 1] \<and>
      (\<forall>data' hour' rain_time'. rain_scan data' = Inr (True, rain_time') \<longrightarrow>
         Push RAIN_TITLE (RainMessage rain_time') 1
           \<in> set (fst (rain_alert_main data' hour'
                          (file_after stored (fst (rain_alert_main data hour stored))))))"
    if r: "rain_scan data = Inr (True, rain_time)" and n: "\<not> rain_alerted (load_state stored)"
      and m: "current data = None \<or>
     (\<exists>c. current data = Some c \<and> (temp c = None \<or> feels_like c = None))"
  proof -
    from main_cold_error [OF r m, of hour stored] n
    have ev: "fst (rain_alert_main data hour stored) = [Push RAIN_TITLE (RainMessage rain_time) 1]"
      by (auto simp: rain_notify_events)
    then have "file_after stored (fst (rain_alert_main data hour stored)) = stored"
      by simp
    with ev n rain_push_when_not_alerted show ?thesis by simp
  qed
  from a b c show ?thesis by blast
qed

theorem state_written_only_by_completed_run_witness:
  "snd (rain_alert_main
     \<lparr>current = Some \<lparr>temp = Some 5, feels_like = None\<rparr>,
      hourly = Some [\<lparr>rain = True, weather = [], dt = Some 1700000000\<rparr>]\<rparr>
     12 (Some \<lparr>rain_alerted = False, last_feels_like = Some 6\<rparr>)) \<noteq> None \<and>
   file_after (Some \<lparr>rain_alerted = False, last_feels_like = Some 6\<rparr>)
     (fst (rain_alert_main
        \<lparr>current = Some \<lparr>temp = Some 5, feels_like = None\<rparr>,
         hourly = Some [\<lparr>rain = True, weather = [], dt = Some 1700000000\<rparr>]\<rparr>
        12 (Some \<lparr>rain_alerted = False, last_feels_like = Some 6\<rparr>)))
     = Some \<lparr>rain_alerted = False, last_feels_like = Some 6\<rparr> \<and>
   Push RAIN_TITLE (RainMessage (Some 1700000000)) 1
     \<in> set (fst (rain_alert_main
        \<lparr>current = Some \<lparr>temp = Some 5, feels_like = None\<rparr>,
         hourly = Some [\<lparr>rain = True, weather = [], dt = Some 1700000000\<rparr>]\<rparr>
        13 (file_after (Some \<lparr>rain_alerted = False, last_feels_like = Some 6\<rparr>)
              (fst (rain_alert_main
                 \<lparr>current = Some \<lparr>temp = Some 5, feels_like = None\<rparr>,
                  hourly = Some [\<lparr>rain = True, weather = [], dt = Some 1700000000\<rparr>]\<rparr>
                 12 (Some \<lparr>rain_alerted = False, last_feels_like = Some 6\<rparr>)))))) \<and>
   snd (rain_alert_main
     \<lparr>current = Some \<lparr>temp = Some 5, feels_like = Some 4\<rparr>, hourly = Some []\<rparr>
     12 None) = None \<and>
   (\<exists>pre s. fst (rain_alert_main
     \<lparr>current = Some \<lparr>temp = Some 5, feels_like = Some 4\<rparr>, hourly = Some []\<rparr>
     12 None) = pre @ [SaveState s])"
proof -
  let ?d = "\<lparr>current = Some \<lparr>temp = Some 5, feels_like = None\<rparr>,
      hourly = Some [\<lparr>rain = True, weather = [], dt = Some 1700000000\<rparr>]\<rparr>"
  let ?st = "Some \<lparr>rain_alerted = False, last_feels_like = Some 6\<rparr>"
  let ?d2 = "\<lparr>current = Some \<lparr>temp = Some 5, feels_like = Some 4\<rparr>, hourly = Some []\<rparr>"
  have h1: "snd (rain_alert_main ?d 12 ?st) \<noteq> None"
    by code_simp
  have h2: "rain_scan ?d = Inr (True, Some 1700000000)"
    by code_simp
  have h3: "\<not> rain_alerted (load_state ?st)"
    by (simp add: load_state_def)
  have h4: "current ?d = None \<or> (\<exists>c. current ?d = Some c \<and> (temp c = None \<or> feels_like c = None))"
    by simp
  have h5: "snd (rain_alert_main ?d2 12 None) = None"
    by code_simp
  from state_written_only_by_completed_run [of ?d 12 ?st "Some 1700000000"] h1 h2 h3 h4
  have "file_after ?st (fst (rain_alert_main ?d 12 ?st)) = ?st"
    and "Push RAIN_TITLE (RainMessage (Some 1700000000)) 1
     \<in> set (fst (rain_alert_main ?d 13 (file_after ?st (fst (rain_alert_main ?d 12 ?st)))))"
    by blast+
  moreover from state_written_only_by_completed_run [of ?d2 12 None] h5
  have "\<exists>pre s. fst (rain_alert_main ?d2 12 None) = pre @ [SaveState s]"
    by blast
  ultimately show ?thesis using h1 h5 by blast
qed

subsection \<open>The rain alert fires on the rising edge\<close>

text \<open>
  Claim C7, as stated: the three cases of the rising edge, so that at most one rain
  notification is sent per continuous rain episode. The conclusion fails when runs
  abort: two successive runs that detect rain and lack the feels-like value both send the
  rain notification, since neither saves \<open>rain_alerted\<close>.
\<close>

theorem rain_episode_aborted_runs_counterexample:
  "rain_scan
     \<lparr>current = Some \<lparr>temp = Some 5, feels_like = None\<rparr>,
      hourly = Some [\<lparr>rain = True, weather = [], dt = Some 1700000000\<rparr>]\<rparr>
   = Inr (True, Some 1700000000) \<and>
   filter is_rain_push
     (invocations
        [(\<lparr>current = Some \<lparr>temp = Some 5, feels_like = None\<rparr>,
           hourly = Some [\<lparr>rain = True, weather = [], dt = Some 1700000000\<rparr>]\<rparr>, 12),
         (\<lparr>current = Some \<lparr>temp = Some 5, feels_like = None\<rparr>,
           hourly = Some [\<lparr>rain = True, weather = [], dt = Some 1700000000\<rparr>]\<rparr>, 13)]
        (Some \<lparr>rain_alerted = False, last_feels_like = Some 6\<rparr>))
   = [Push RAIN_TITLE (RainMessage (Some 1700000000)) 1,
      Push RAIN_TITLE (RainMessage (Some 1700000000)) 1]"
  by code_simp

text \<open>
  Claim C7, amended. When rain is detected in the first two forecast points and
  \<open>rain_alerted\<close> is false, exactly one rain notification is sent and \<open>rain_alerted\<close>
  becomes true; when rain is detected and \<open>rain_alerted\<close> is true, none is sent and the
  flag stays true; when no rain is detected, none is sent and the flag becomes false. For
  the whole run: the rain notifications of a run are that one notification or none, and a
  run that reaches its end saves the flag as the detection result. So over successive
  runs that all detect rain and all reach their end, at most one rain notification is
  sent.
\<close>

theorem rain_rising_edge:
  "(rain_scan data = Inr (True, rain_time) \<and> \<not> rain_alerted state \<longrightarrow>
      rain_section data state =
        Inr ([Push RAIN_TITLE (RainMessage rain_time) 1], state\<lparr>rain_alerted := True\<rparr>)) \<and>
   (rain_scan data = Inr (True, rain_time) \<and> rain_alerted state \<longrightarrow>
      rain_section data state = Inr ([], state)) \<and>
   (rain_scan data = Inr (False, rain_time) \<longrightarrow>
      rain_section data state = Inr ([], state\<lparr>rain_alerted := False\<rparr>)) \<and>
   (rain_scan data = Inr (rain_soon, rain_time) \<longrightarrow>
      filter is_rain_push (fst (rain_alert_main data hour stored)) =
        (if rain_soon \<and> \<not> rain_alerted (load_state stored)
         then [Push RAIN_TITLE (RainMessage rain_time) 1] else [])) \<and>
   (rain_scan data = Inr (rain_soon, rain_time) \<and> snd (rain_alert_main data hour stored) = None \<longrightarrow>
      (\<exists>s. file_after stored (fst (rain_alert_main data hour stored)) = Some s \<and>
           rain_alerted s = rain_soon)) \<and>
   ((\<forall>(d, h) \<in> set runs. \<exists>rt c t f. rain_scan d = Inr (True, rt) \<and>
        current d = Some c \<and> temp c = Some t \<and> feels_like c = Some f) \<longrightarrow>
      length (filter is_rain_push (invocations runs stored)) \<le> 1)"
proof -
  have a: "rain_section data state =
        Inr ([Push RAIN_TITLE (RainMessage rain_time) 1], state\<lparr>rain_alerted := True\<rparr>)"
    if "rain_scan data = Inr (True, rain_time)" "\<not> rain_alerted state"
    using that by (simp add: rain_section_def rain_notify_def)
  have b: "rain_section data state = Inr ([], state)"
    if "rain_scan data = Inr (True, rain_time)" "rain_alerted state"
    using that by (simp add: rain_section_def rain_notify_def)
  have c: "rain_section data state = Inr ([], state\<lparr>rain_alerted := False\<rparr>)"
    if "rain_scan data = Inr (False, rain_time)"
    using that by (cases "rain_alerted state") (simp_all add: rain_section_def rain_notify_def)
  have d: "filter is_rain_push (fst (rain_alert_main data hour stored)) =
        (if rain_soon \<and> \<not> rain_alerted (load_state stored)
         then [Push RAIN_TITLE (RainMessage rain_time) 1] else [])"
    if "rain_scan data = Inr (rain_soon, rain_time)"
    using that by (rule rain_pushes_of_run)
  have e: "\<exists>s. file_after stored (fst (rain_alert_main data hour stored)) = Some s \<and>
           rain_alerted s = rain_soon"
    if r: "rain_scan data = Inr (rain_soon, rain_time)"
      and n: "snd (rain_alert_main data hour stored) = None"
  proof (cases rule: main_cases [of data hour stored])
    case (rain_error e)
    with n show ?thesis by simp
  next
    case (cold_error rs rt k)
    with n show ?thesis by simp
  next
    case (complete rs rt c t f)
    with r file_after_complete [OF complete(1-4), of stored hour] show ?thesis by simp
  qed
  have f: "length (filter is_rain_push (invocations runs stored)) \<le> 1"
    if all: "\<forall>(d, h) \<in> set runs. \<exists>rt c t f. rain_scan d = Inr (True, rt) \<and>
        current d = Some c \<and> temp c = Some t \<and> feels_like c = Some f"
  proof (cases runs)
    case Nil
    then show ?thesis by simp
  next
    case (Cons r rest)
    obtain d h where r: "r = (d, h)" by (cases r)
    from all Cons r obtain rt c t f where
      dd: "rain_scan d = Inr (True, rt)" "current d = Some c" "temp c = Some t" "feels_like c = Some f"
      by auto
    have 1: "length (filter is_rain_push (fst (rain_alert_main d h stored))) \<le> 1"
      using rain_pushes_of_run [OF dd(1), of h stored] by simp
    have "rain_alerted (load_state (file_after stored (fst (rain_alert_main d h stored))))"
      using file_after_complete [OF dd, of stored h] by (simp add: load_state_def)
    moreover from all Cons have "\<forall>(d, h) \<in> set rest. \<exists>rt c t f. rain_scan d = Inr (True, rt) \<and>
        current d = Some c \<and> temp c = Some t \<and> feels_like c = Some f"
      by simp
    ultimately have 2: "filter is_rain_push
             (invocations rest (file_after stored (fst (rain_alert_main d h stored)))) = []"
      by (rule no_rain_push_while_alerted [rotated])
    from 1 2 Cons r show ?thesis by (simp add: Let_def)
  qed
  from a b c d e f show ?thesis by blast
qed

theorem rain_rising_edge_witness:
  "rain_section
     \<lparr>current = Some \<lparr>temp = Some 20, feels_like = Some 19\<rparr>,
      hourly = Some [\<lparr>rain = False, weather = [Some ''Clouds''], dt = Some 1700000000\<rparr>,
                     \<lparr>rain = False, weather = [Some ''Rain''], dt = Some 1700003600\<rparr>]\<rparr>
     \<lparr>rain_alerted = False, last_feels_like = None\<rparr>
   = Inr ([Push RAIN_TITLE (RainMessage (Some 1700003600)) 1],
          \<lparr>rain_alerted = True, last_feels_like = None\<rparr>) \<and>
   rain_section
     \<lparr>current = Some \<lparr>temp = Some 20, feels_like = Some 19\<rparr>,
      hourly = Some [\<lparr>rain = False, weather = [Some ''Clouds''], dt = Some 1700000000\<rparr>,
                     \<lparr>rain = False, weather = [Some ''Rain''], dt = Some 1700003600\<rparr>]\<rparr>
     \<lparr>rain_alerted = True, last_feels_like = None\<rparr>
   = Inr ([], \<lparr>rain_alerted = True, last_feels_like = None\<rparr>) \<and>
   rain_section
     \<lparr>current = Some \<lparr>temp = Some 20, feels_like = Some 19\<rparr>,
      hourly = Some [\<lparr>rain = False, weather = [Some ''Clouds''], dt = Some 1700000000\<rparr>]\<rparr>
     \<lparr>rain_alerted = True, last_feels_like = None\<rparr>
   = Inr ([], \<lparr>rain_alerted = False, last_feels_like = None\<rparr>) \<and>
   filter is_rain_push (fst (rain_alert_main
     \<lparr>current = Some \<lparr>temp = Some 20, feels_like = Some 19\<rparr>,
      hourly = Some [\<lparr>rain = False, weather = [Some ''Clouds''], dt = Some 1700000000\<rparr>,
                     \<lparr>rain = False, weather = [Some ''Rain''], dt = Some 1700003600\<rparr>]\<rparr>
     12 None))
   = [Push RAIN_TITLE (RainMessage (Some 1700003600)) 1] \<and>
   (\<exists>s. file_after None (fst (rain_alert_main
     \<lparr>current = Some \<lparr>temp = Some 20, feels_like = Some 19\<rparr>,
      hourly = Some [\<lparr>rain = False, weather = [Some ''Clouds''], dt = Some 1700000000\<rparr>,
                     \<lparr>rain = False, weather = [Some ''Rain''], dt = Some 1700003600\<rparr>]\<rparr>
     12 None)) = Some s \<and> rain_alerted s) \<and>
   length (filter is_rain_push (invocations
     [(\<lparr>current = Some \<lparr>temp = Some 20, feels_like = Some 19\<rparr>,
        hourly = Some [\<lparr>rain = False, weather = [Some ''Clouds''], dt = Some 1700000000\<rparr>,
                       \<lparr>rain = False, weather = [Some ''Rain''], dt = Some 1700003600\<rparr>]\<rparr>, 12),
      (\<lparr>current = Some \<lparr>temp = Some 20, feels_like = Some 19\<rparr>,
        hourly = Some [\<lparr>rain = True, weather = [], dt = Some 1700003600\<rparr>]\<rparr>, 13)]
     None)) \<le> 1"
proof -
  let ?d = "\<lparr>current = Some \<lparr>temp = Some 20, feels_like = Some 19\<rparr>,
      hourly = Some [\<lparr>rain = False, weather = [Some ''Clouds''], dt = Some 1700000000\<rparr>,
                     \<lparr>rain = False, weather = [Some ''Rain''], dt = Some 1700003600\<rparr>]\<rparr>"
  let ?d2 = "\<lparr>current = Some \<lparr>temp = Some 20, feels_like = Some 19\<rparr>,
        hourly = Some [\<lparr>rain = True, weather = [], dt = Some 1700003600\<rparr>]\<rparr>"
  let ?dry = "\<lparr>current = Some \<lparr>temp = Some 20, feels_like = Some 19\<rparr>,
      hourly = Some [\<lparr>rain = False, weather = [Some ''Clouds''], dt = Some 1700000000\<rparr>]\<rparr>"
  let ?s0 = "\<lparr>rain_alerted = False, last_feels_like = None\<rparr>"
  let ?s1 = "\<lparr>rain_alerted = True, last_feels_like = None\<rparr>"
  have r: "rain_scan ?d = Inr (True, Some 1700003600)"
    by code_simp
  have r2: "rain_scan ?d2 = Inr (True, Some 1700003600)"
    by code_simp
  have dry: "rain_scan ?dry = Inr (False, None)"
    by code_simp
  have fin: "snd (rain_alert_main ?d 12 None) = None"
    by code_simp
  have all: "\<forall>(d, h) \<in> set [(?d, 12), (?d2, 13::int)]. \<exists>rt c t f. rain_scan d = Inr (True, rt) \<and>
        current d = Some c \<and> temp c = Some t \<and> feels_like c = Some f"
    using r r2 by simp
  have 1: "rain_section ?d ?s0 = Inr ([Push RAIN_TITLE (RainMessage (Some 1700003600)) 1], ?s1)"
    using rain_rising_edge [of ?d "Some 1700003600" ?s0] r by simp
  have 2: "rain_section ?d ?s1 = Inr ([], ?s1)"
    using rain_rising_edge [of ?d "Some 1700003600" ?s1] r by simp
  have 3: "rain_section ?dry ?s1 = Inr ([], ?s0)"
    using rain_rising_edge [of ?dry None ?s1] dry by simp
  have 4: "filter is_rain_push (fst (rain_alert_main ?d 12 None))
     = [Push RAIN_TITLE (RainMessage (Some 1700003600)) 1]"
    using rain_rising_edge [of ?d "Some 1700003600" _ True 12 None] r
    by (simp add: load_state_def)
  have 5: "\<exists>s. file_after None (fst (rain_alert_main ?d 12 None)) = Some s \<and> rain_alerted s"
    using rain_rising_edge [of ?d "Some 1700003600" _ True 12 None] r fin by simp
  have 6: "length (filter is_rain_push (invocations [(?d, 12), (?d2, 13)] None)) \<le> 1"
    using rain_rising_edge [of _ _ _ _ _ None "[(?d, 12), (?d2, 13)]"] all by blast
  from 1 2 3 4 5 6 show ?thesis by blast
qed

subsection \<open>Rounding\<close>

text \<open>
  Claim C9. The cold alert engine rounds the readings before every decision. The rounded
  value is a nearest integer. A run depends on the current temperature and feels-like
  value only through their rounded values: two responses with the same forecast and the
  same rounded values give the same run. The value saved as \<open>last_feels_like\<close> is the
  rounded feels-like value, and the crossing check is made on it. Two readings that round
  to the same integer never give a crossing between them. The float 0.4, which is exactly
  3602879701896397 / 9007199254740992, is treated as 0, at or below the threshold 0: coming
  from 1 it crosses it.
\<close>

theorem decisions_use_rounded_readings:
  "\<bar>of_int (py_round x) - x\<bar> \<le> 1 / 2 \<and>
   (hourly data = hourly data' \<and>
    current data = Some c \<and> temp c = Some t \<and> feels_like c = Some f \<and>
    current data' = Some c' \<and> temp c' = Some t' \<and> feels_like c' = Some f' \<and>
    py_round t = py_round t' \<and> py_round f = py_round f' \<longrightarrow>
      rain_alert_main data hour stored = rain_alert_main data' hour stored) \<and>
   (snd (rain_alert_main data hour stored) = None \<longrightarrow>
      (\<exists>c f s. current data = Some c \<and> feels_like c = Some f \<and>
           file_after stored (fst (rain_alert_main data hour stored)) = Some s \<and>
           last_feels_like s = Some (py_round f))) \<and>
   (current data = Some c \<and> temp c = Some t \<and> feels_like c = Some f \<longrightarrow>
      (\<exists>s. cold_section data hour state =
              Inr (cold_notify hour (py_round t) (py_round f)
                     (alert_to_send (last_feels_like state) (py_round f)) @ [SaveState s], s) \<and>
           last_feels_like s = Some (py_round f))) \<and>
   (py_round x = py_round y \<longrightarrow> \<not> crossed (Some (py_round x)) (py_round y) T) \<and>
   py_round (4 / 10) = 0 \<and>
   py_round (3602879701896397 / 9007199254740992) = 0 \<and>
   crossed (Some 1) (py_round (3602879701896397 / 9007199254740992)) 0"
proof -
  have b: "rain_alert_main data hour stored = rain_alert_main data' hour stored"
    if h: "hourly data = hourly data'"
      and d: "current data = Some c" "temp c = Some t" "feels_like c = Some f"
      and d': "current data' = Some c'" "temp c' = Some t'" "feels_like c' = Some f'"
      and r: "py_round t = py_round t'" "py_round f = py_round f'"
  proof (cases "rain_scan data")
    case (Inl e)
    with rain_scan_hourly [OF h] have "rain_scan data' = Inl e" by simp
    with Inl show ?thesis by (simp add: main_rain_error)
  next
    case (Inr p)
    obtain rs rt where p: "p = (rs, rt)" by (cases p)
    from Inr p rain_scan_hourly [OF h] have "rain_scan data' = Inr (rs, rt)" by simp
    from main_complete [OF this d', of hour stored] main_complete [OF Inr [unfolded p] d, of hour stored] r
    show ?thesis by simp
  qed
  have c: "\<exists>c f s. current data = Some c \<and> feels_like c = Some f \<and>
           file_after stored (fst (rain_alert_main data hour stored)) = Some s \<and>
           last_feels_like s = Some (py_round f)"
    if n: "snd (rain_alert_main data hour stored) = None"
  proof (cases rule: main_cases [of data hour stored])
    case (rain_error e)
    with n show ?thesis by simp
  next
    case (cold_error rs rt k)
    with n show ?thesis by simp
  next
    case (complete rs rt c t f)
    with file_after_complete [OF complete(1-4), of stored hour] show ?thesis by simp
  qed
  have d: "\<exists>s. cold_section data hour state =
              Inr (cold_notify hour (py_round t) (py_round f)
                     (alert_to_send (last_feels_like state) (py_round f)) @ [SaveState s], s) \<and>
           last_feels_like s = Some (py_round f)"
    if "current data = Some c" "temp c = Some t" "feels_like c = Some f"
    using cold_section_present [OF that, of hour state] by simp
  have e: "py_round x = py_round y \<longrightarrow> \<not> crossed (Some (py_round x)) (py_round y) T"
    by (simp add: crossed_def)
  have f: "py_round (4 / 10) = 0"
    by code_simp
  have g: "py_round (3602879701896397 / 9007199254740992) = 0"
    by code_simp
  have h: "crossed (Some 1) (py_round (3602879701896397 / 9007199254740992)) 0"
    unfolding g by (simp add: crossed_def)
  from py_round_nearest [of x] b c d e f g h show ?thesis by blast
qed

theorem decisions_use_rounded_readings_witness:
  "rain_alert_main
     \<lparr>current = Some \<lparr>temp = Some (56 / 10), feels_like = Some (4 / 10)\<rparr>, hourly = Some []\<rparr>
     14 (Some \<lparr>rain_alerted = False, last_feels_like = Some 1\<rparr>)
   = rain_alert_main
     \<lparr>current = Some \<lparr>temp = Some 6, feels_like = Some 0\<rparr>, hourly = Some []\<rparr>
     14 (Some \<lparr>rain_alerted = False, last_feels_like = Some 1\<rparr>) \<and>
   (\<exists>s. file_after (Some \<lparr>rain_alerted = False, last_feels_like = Some 1\<rparr>)
          (fst (rain_alert_main
             \<lparr>current = Some \<lparr>temp = Some (56 / 10), feels_like = Some (4 / 10)\<rparr>,
              hourly = Some []\<rparr>
             14 (Some \<lparr>rain_alerted = False, last_feels_like = Some 1\<rparr>))) = Some s \<and>
        last_feels_like s = Some 0) \<and>
   (\<exists>s. cold_section
          \<lparr>current = Some \<lparr>temp = Some (56 / 10), feels_like = Some (4 / 10)\<rparr>, hourly = Some []\<rparr>
          14 \<lparr>rain_alerted = False, last_feels_like = Some 1\<rparr>
        = Inr (cold_notify 14 6 0 (alert_to_send (Some 1) 0) @ [SaveState s], s)) \<and>
   \<not> crossed (Some (py_round (4 / 10))) (py_round (- 3 / 10)) 0"
proof -
  let ?c = "\<lparr>temp = Some (56 / 10), feels_like = Some (4 / 10)\<rparr>"
  let ?c' = "\<lparr>temp = Some 6, feels_like = Some 0\<rparr>"
  let ?d = "\<lparr>current = Some ?c, hourly = Some []\<rparr>"
  let ?d' = "\<lparr>current = Some ?c', hourly = Some []\<rparr>"
  let ?st = "Some \<lparr>rain_alerted = False, last_feels_like = Some 1\<rparr>"
  have rt: "py_round (56 / 10) = 6" "py_round 6 = 6"
    by code_simp+
  have rf: "py_round (4 / 10) = 0" "py_round 0 = 0" "py_round (- 3 / 10) = 0"
    by code_simp+
  have fin: "snd (rain_alert_main ?d 14 ?st) = None"
    by code_simp
  note inst = decisions_use_rounded_readings
    [of "4 / 10" ?d ?d' ?c "56 / 10" "4 / 10" ?c' 6 0 14 ?st
        "\<lparr>rain_alerted = False, last_feels_like = Some 1\<rparr>" "- 3 / 10" 0]
  have 1: "rain_alert_main ?d 14 ?st = rain_alert_main ?d' 14 ?st"
    using inst rt rf by simp
  have 2: "\<exists>s. file_after ?st (fst (rain_alert_main ?d 14 ?st)) = Some s \<and>
        last_feels_like s = Some 0"
  proof -
    from inst fin obtain c f s where *: "current ?d = Some c" "feels_like c = Some f"
      "file_after ?st (fst (rain_alert_main ?d 14 ?st)) = Some s"
      "last_feels_like s = Some (py_round f)"
      by blast
    from *(1) have "c = ?c" by simp
    with *(2) have f: "f = 4 / 10" by simp
    have "py_round f = 0" unfolding f by (rule rf(1))
    with *(3,4) show ?thesis by simp
  qed
  have 3: "\<exists>s. cold_section ?d 14 \<lparr>rain_alerted = False, last_feels_like = Some 1\<rparr>
        = Inr (cold_notify 14 6 0 (alert_to_send (Some 1) 0) @ [SaveState s], s)"
    using inst rt rf by auto
  have 4: "\<not> crossed (Some (py_round (4 / 10))) (py_round (- 3 / 10)) 0"
    using inst rf by simp
  from 1 2 3 4 show ?thesis by blast
qed

end
